theory Spec2Isabelle
  imports Main "HOL-Library.Word" "HOL-Library.AList"
begin

section \<open>JavaScript values and objects\<close>

text \<open>
  The handler of \<^verbatim>\<open>src/server/auth/handlers/register.ts\<close> works on plain JavaScript
  objects: the parsed client metadata, the client information built from it by an object
  literal with a spread, and the error object \<^verbatim>\<open>{ error, error_description }\<close>. An object
  is the list of its properties, name and value, in the order of their creation, as
  JavaScript keeps them. A number is modelled as an \<open>int\<close>: the
  values the handler computes with are whole seconds and milliseconds, far below
  \<open>2^53\<close>, where the arithmetic of JavaScript's doubles is exact.
\<close>

datatype jsvalue =
    JUndefined
  | JNull
  | JBool bool
  | JNum int
  | JStr string
  | JArr "jsvalue list"
  | JObj "(string \<times> jsvalue) list"

type_synonym jsobject = "(string \<times> jsvalue) list"

text \<open>
  Reading a property, \<^verbatim>\<open>obj.k\<close>: a property that is not there reads as \<^verbatim>\<open>undefined\<close>,
  like one that holds \<^verbatim>\<open>undefined\<close>.
\<close>

definition js_get :: "jsobject \<Rightarrow> string \<Rightarrow> jsvalue" where
  "js_get obj k = (case map_of obj k of None \<Rightarrow> JUndefined | Some v \<Rightarrow> v)"

text \<open>
  The operator \<^verbatim>\<open>k in obj\<close>: true when the object has the key, whatever it holds
  (also \<^verbatim>\<open>undefined\<close>).
\<close>

definition js_in :: "string \<Rightarrow> jsobject \<Rightarrow> bool" where
  "js_in k obj = (map_of obj k \<noteq> None)"

text \<open>
  Defining properties on an object, one after the other, as the entries of an object
  literal do after a spread: a key the object has keeps its place and takes the new
  value, a new key goes to the end.
\<close>

definition js_define :: "jsobject \<Rightarrow> (string \<times> jsvalue) list \<Rightarrow> jsobject" where
  "js_define obj props = foldl (\<lambda>acc (k, v). AList.update k v acc) obj props"

section \<open>What the handler imports\<close>

text \<open>
  \<^verbatim>\<open>OAuthClientMetadataSchema\<close> (\<^verbatim>\<open>shared/auth.js\<close>) is not part of the file; its
  \<^verbatim>\<open>parse\<close> either returns the metadata object or throws. The thrown values have the type
  \<open>'x\<close>, and \<^verbatim>\<open>String(error)\<close> is the second parameter.
\<close>

record 'x externals =
  OAuthClientMetadataSchema_parse :: "jsvalue \<Rightarrow> 'x + jsobject"
  String_of :: "'x \<Rightarrow> string"

text \<open>
  What one request draws from \<^verbatim>\<open>node:crypto\<close> and from the clock:
  \<^verbatim>\<open>crypto.randomUUID()\<close>, \<^verbatim>\<open>crypto.randomBytes(n)\<close> and \<^verbatim>\<open>Date.now()\<close>
  (milliseconds). All three are taken to return.
\<close>

record entropy =
  randomUUID :: string
  randomBytes :: "nat \<Rightarrow> 8 word list"
  Date_now :: int

text \<open>\<^verbatim>\<open>Buffer.toString('hex')\<close>: two lower-case hexadecimal digits for each byte.\<close>

definition hex_digit :: "nat \<Rightarrow> char" where
  "hex_digit n = ''0123456789abcdef'' ! (n mod 16)"

definition byte_hex :: "8 word \<Rightarrow> string" where
  "byte_hex b = [hex_digit (unat b div 16), hex_digit (unat b mod 16)]"

definition toString_hex :: "8 word list \<Rightarrow> string" where
  "toString_hex bs = concat (map byte_hex bs)"

text \<open>
  \<^verbatim>\<open>OAuthRegisteredClientsStore\<close> (\<^verbatim>\<open>../clients.js\<close>): \<^verbatim>\<open>registerClient\<close> is an optional
  method. Called with the client information in a store of state \<open>'s\<close>, it returns a
  promise: rejected with a thrown value (\<open>Inl\<close>) or resolved with an object (\<open>Inr\<close>),
  and leaves the store in a new state.
\<close>

type_synonym ('x, 's) registerClient_fn = "jsobject \<Rightarrow> 's \<Rightarrow> ('x + jsobject) \<times> 's"

record ('x, 's) OAuthRegisteredClientsStore =
  registerClient :: "('x, 's) registerClient_fn option"

record ('x, 's) ClientRegistrationHandlerOptions =
  clientsStore :: "('x, 's) OAuthRegisteredClientsStore"
  clientSecretExpirySeconds :: "int option"

definition DEFAULT_CLIENT_SECRET_EXPIRY_SECONDS :: int where
  "DEFAULT_CLIENT_SECRET_EXPIRY_SECONDS = 30 * 24 * 60 * 60"

section \<open>register\<close>

text \<open>
  Lines 43 to 55 of \<^verbatim>\<open>register\<close>: the identifier, the secret (none for the method
  \<^verbatim>\<open>'none'\<close>), the time of issue in whole seconds, and the object literal
  \<^verbatim>\<open>{ ...clientMetadata, client_id, client_secret, client_id_issued_at,
  client_secret_expires_at }\<close>. The literal sets the key \<^verbatim>\<open>client_secret\<close> also when the
  value is \<^verbatim>\<open>undefined\<close>.
\<close>

definition clientInfo :: "int \<Rightarrow> entropy \<Rightarrow> jsobject \<Rightarrow> jsobject" where
  "clientInfo expirySeconds d clientMetadata =
     (let clientId = randomUUID d;
          clientSecret =
            (if js_get clientMetadata ''token_endpoint_auth_method'' \<noteq> JStr ''none''
             then JStr (toString_hex (randomBytes d 32))
             else JUndefined);
          clientIdIssuedAt = Date_now d div 1000
      in js_define clientMetadata
           [(''client_id'', JStr clientId),
            (''client_secret'', clientSecret),
            (''client_id_issued_at'', JNum clientIdIssuedAt),
            (''client_secret_expires_at'',
               JNum (if expirySeconds > 0 then clientIdIssuedAt + expirySeconds else 0))])"


text \<open>
  One run of \<^verbatim>\<open>register\<close>: how its promise settles (\<open>Inl\<close> rejected, \<open>Inr\<close> resolved), the
  state of the store afterwards, and the arguments of the calls of \<^verbatim>\<open>registerClient\<close> it
  made, in order.
\<close>

record ('x, 's) registration =
  outcome :: "'x + jsobject"
  storeState :: 's
  storeCalls :: "jsobject list"

text \<open>
  \<^verbatim>\<open>register\<close> is a closure of \<^verbatim>\<open>clientRegistrationHandler\<close>: \<open>rc\<close> is
  \<^verbatim>\<open>clientsStore.registerClient\<close>, which the constructor has checked, and \<open>expirySeconds\<close>
  the configured \<^verbatim>\<open>clientSecretExpirySeconds\<close>.
\<close>

definition register ::
  "'x externals \<Rightarrow> ('x, 's) registerClient_fn \<Rightarrow> int \<Rightarrow> entropy \<Rightarrow> jsvalue \<Rightarrow> 's
   \<Rightarrow> ('x, 's) registration" where
  "register ext rc expirySeconds d requestBody s =
     (case OAuthClientMetadataSchema_parse ext requestBody of
        Inl error \<Rightarrow>
          \<lparr>outcome = Inr [(''error'', JStr ''invalid_client_metadata''),
                          (''error_description'', JStr (String_of ext error))],
           storeState = s,
           storeCalls = []\<rparr>
      | Inr clientMetadata \<Rightarrow>
          (let info = clientInfo expirySeconds d clientMetadata;
               (result, s') = rc info s
           in \<lparr>outcome = result, storeState = s', storeCalls = [info]\<rparr>))"

section \<open>The request handler and its constructor\<close>

text \<open>
  What the handler does to the response: \<^verbatim>\<open>res.status(n).json(v)\<close> or
  \<^verbatim>\<open>res.status(n).end(text)\<close>, and what it writes with \<^verbatim>\<open>console.error\<close>.
\<close>

datatype payload = Json jsobject | Text string

record 'x response =
  status :: nat
  body :: payload
  console_error :: "(string \<times> 'x) list"

text \<open>The two callbacks of \<^verbatim>\<open>register(req.body).then(...)\<close>, lines 63 to 72.\<close>

definition respond :: "'x + jsobject \<Rightarrow> 'x response" where
  "respond settled =
     (case settled of
        Inr result \<Rightarrow>
          (if js_in ''error'' result
           then \<lparr>status = 400, body = Json result, console_error = []\<rparr>
           else \<lparr>status = 201, body = Json result, console_error = []\<rparr>)
      | Inl error \<Rightarrow>
          \<lparr>status = 500, body = Text ''Internal Server Error'',
           console_error = [(''Uncaught error in client registration handler:'', error)]\<rparr>)"

text \<open>
  \<^verbatim>\<open>router.post("/", ...)\<close> on the body of a request; the routing, the JSON body parser
  and CORS of Express are not modelled.
\<close>

definition post ::
  "'x externals \<Rightarrow> ('x, 's) registerClient_fn \<Rightarrow> int \<Rightarrow> entropy \<Rightarrow> jsvalue \<Rightarrow> 's
   \<Rightarrow> 'x response \<times> 's" where
  "post ext rc expirySeconds d requestBody s =
     (let r = register ext rc expirySeconds d requestBody s
      in (respond (outcome r), storeState r))"

text \<open>
  The constructor: it throws (\<open>Inl\<close> the message of the \<^verbatim>\<open>Error\<close>) when the store has no
  \<^verbatim>\<open>registerClient\<close>, and returns the handler otherwise. The default of the destructured
  \<^verbatim>\<open>clientSecretExpirySeconds\<close> applies when the option is not given.
\<close>

definition clientRegistrationHandler ::
  "'x externals \<Rightarrow> ('x, 's) ClientRegistrationHandlerOptions
   \<Rightarrow> string + (entropy \<Rightarrow> jsvalue \<Rightarrow> 's \<Rightarrow> 'x response \<times> 's)" where
  "clientRegistrationHandler ext opts =
     (case registerClient (clientsStore opts) of
        None \<Rightarrow> Inl ''Client registration store does not support registering clients''
      | Some rc \<Rightarrow>
          Inr (post ext rc
                 (case clientSecretExpirySeconds opts of
                    None \<Rightarrow> DEFAULT_CLIENT_SECRET_EXPIRY_SECONDS
                  | Some n \<Rightarrow> n)))"

section \<open>Test doubles\<close>

text \<open>
  A validator that asks for an object with an array \<^verbatim>\<open>redirect_uris\<close>, stores, draws and
  request bodies: the concrete inputs at which the theorems below are evaluated. They
  stand for no part of the repository.
\<close>

definition stub_parse :: "jsvalue \<Rightarrow> string + jsobject" where
  "stub_parse v =
     (case v of
        JObj m \<Rightarrow>
          (case map_of m ''redirect_uris'' of
             Some (JArr uris) \<Rightarrow> Inr m
           | _ \<Rightarrow> Inl ''redirect_uris: Required'')
      | _ \<Rightarrow> Inl ''Expected object'')"

definition stub_ext :: "string externals" where
  "stub_ext = \<lparr>OAuthClientMetadataSchema_parse = stub_parse, String_of = (\<lambda>e. ''Error: '' @ e)\<rparr>"

definition memory_registerClient :: "(string, jsobject list) registerClient_fn" where
  "memory_registerClient info s = (Inr info, s @ [info])"

definition failing_registerClient :: "(string, jsobject list) registerClient_fn" where
  "failing_registerClient info s = (Inl ''connection lost'', s)"

definition tagging_registerClient :: "(string, jsobject list) registerClient_fn" where
  "tagging_registerClient info s = (Inr (js_define info [(''error'', JNull)]), s @ [info])"

definition draw1 :: entropy where
  "draw1 = \<lparr>randomUUID = ''6f1c2a9e-0000-4000-8000-000000000001'',
            randomBytes = (\<lambda>n. replicate n 171),
            Date_now = 1730000000123\<rparr>"

definition draw2 :: entropy where
  "draw2 = \<lparr>randomUUID = ''6f1c2a9e-0000-4000-8000-000000000002'',
            randomBytes = (\<lambda>n. replicate n 52),
            Date_now = 1730000000123\<rparr>"

definition public_metadata :: jsobject where
  "public_metadata =
     [(''token_endpoint_auth_method'', JStr ''none''),
      (''redirect_uris'', JArr [JStr ''https://example.com/cb''])]"

definition confidential_metadata :: jsobject where
  "confidential_metadata =
     [(''token_endpoint_auth_method'', JStr ''client_secret_post''),
      (''redirect_uris'', JArr [JStr ''https://example.com/cb''])]"

definition incomplete_metadata :: jsobject where
  "incomplete_metadata = [(''token_endpoint_auth_method'', JStr ''none'')]"


section \<open>Facts about the model\<close>

lemma stub_parse_public: "OAuthClientMetadataSchema_parse stub_ext (JObj public_metadata) = Inr public_metadata"
  by (simp add: stub_ext_def stub_parse_def public_metadata_def)

lemma stub_parse_confidential:
  "OAuthClientMetadataSchema_parse stub_ext (JObj confidential_metadata) = Inr confidential_metadata"
  by (simp add: stub_ext_def stub_parse_def confidential_metadata_def)

lemma stub_parse_incomplete:
  "OAuthClientMetadataSchema_parse stub_ext (JObj incomplete_metadata) = Inl ''redirect_uris: Required''"
  by (simp add: stub_ext_def stub_parse_def incomplete_metadata_def)

lemma register_valid:
  assumes "OAuthClientMetadataSchema_parse ext requestBody = Inr clientMetadata"
  shows "register ext rc n d requestBody s =
           \<lparr>outcome = fst (rc (clientInfo n d clientMetadata) s),
            storeState = snd (rc (clientInfo n d clientMetadata) s),
            storeCalls = [clientInfo n d clientMetadata]\<rparr>"
  using assms by (simp add: register_def Let_def split: prod.splits)

lemma map_of_clientInfo:
  "map_of (clientInfo n d m) =
     (map_of m)
       (''client_id'' \<mapsto> JStr (randomUUID d),
        ''client_secret'' \<mapsto>
           (if js_get m ''token_endpoint_auth_method'' \<noteq> JStr ''none''
            then JStr (toString_hex (randomBytes d 32)) else JUndefined),
        ''client_id_issued_at'' \<mapsto> JNum (Date_now d div 1000),
        ''client_secret_expires_at'' \<mapsto>
           JNum (if 0 < n then Date_now d div 1000 + n else 0))"
  by (simp add: clientInfo_def js_define_def Let_def update_conv')

lemma clientInfo_issued_at:
  "js_get (clientInfo n d m) ''client_id_issued_at'' = JNum (Date_now d div 1000)"
  by (simp add: js_get_def map_of_clientInfo)

lemma clientInfo_expires_at:
  "js_get (clientInfo n d m) ''client_secret_expires_at'' =
     JNum (if 0 < n then Date_now d div 1000 + n else 0)"
  by (simp add: js_get_def map_of_clientInfo)

lemma clientInfo_secret:
  "js_get (clientInfo n d m) ''client_secret'' =
     (if js_get m ''token_endpoint_auth_method'' \<noteq> JStr ''none''
      then JStr (toString_hex (randomBytes d 32)) else JUndefined)"
  by (simp add: js_get_def map_of_clientInfo)

lemma clientInfo_client_id: "js_get (clientInfo n d m) ''client_id'' = JStr (randomUUID d)"
  by (simp add: js_get_def map_of_clientInfo)

lemma clientInfo_secret_key: "js_in ''client_secret'' (clientInfo n d m)"
  by (simp add: js_in_def map_of_clientInfo)





lemma clientInfo_nonpositive: "n \<le> 0 \<Longrightarrow> clientInfo n d m = clientInfo 0 d m"
  by (simp add: clientInfo_def)

lemma register_nonpositive:
  "n \<le> 0 \<Longrightarrow> register ext rc n d requestBody s = register ext rc 0 d requestBody s"
  by (simp add: register_def clientInfo_nonpositive [of n] split: sum.splits)

lemma post_nonpositive: "n \<le> 0 \<Longrightarrow> post ext rc n = post ext rc 0"
  by (simp add: fun_eq_iff post_def register_nonpositive [of n])


lemma stub_String_of: "String_of stub_ext e = ''Error: '' @ e"
  by (simp add: stub_ext_def)

lemma public_method: "js_get public_metadata ''token_endpoint_auth_method'' = JStr ''none''"
  by (simp add: js_get_def public_metadata_def)


lemma tagged_has_error: "js_in ''error'' (js_define info [(''error'', JNull)])"
  by (simp add: js_in_def js_define_def update_conv')

section \<open>The claims\<close>

text \<open>
  C1. When the metadata validates, the record \<^verbatim>\<open>register\<close> builds and hands to the store
  has \<^verbatim>\<open>client_secret_expires_at = client_id_issued_at + L\<close> for a configured lifetime
  \<open>L > 0\<close>, and \<^verbatim>\<open>client_secret_expires_at = 0\<close> for \<open>L = 0\<close>, whatever the time of issue.
\<close>

theorem register_secret_expiry:
  assumes "OAuthClientMetadataSchema_parse ext requestBody = Inr clientMetadata"
  shows "\<exists>info t. storeCalls (register ext rc L d requestBody s) = [info]
           \<and> js_get info ''client_id_issued_at'' = JNum t
           \<and> (0 < L \<longrightarrow> js_get info ''client_secret_expires_at'' = JNum (t + L))
           \<and> (L = 0 \<longrightarrow> js_get info ''client_secret_expires_at'' = JNum 0)"
  using assms
  by (simp add: register_valid clientInfo_issued_at clientInfo_expires_at)

theorem register_secret_expiry_witness:
  "OAuthClientMetadataSchema_parse stub_ext (JObj confidential_metadata) = Inr confidential_metadata
   \<and> (\<exists>info t.
         storeCalls (register stub_ext memory_registerClient 3600 draw1
                       (JObj confidential_metadata) []) = [info]
       \<and> js_get info ''client_id_issued_at'' = JNum t
       \<and> (0::int) < 3600
       \<and> js_get info ''client_secret_expires_at'' = JNum (t + 3600))
   \<and> (\<exists>info t.
         storeCalls (register stub_ext memory_registerClient 0 draw1
                       (JObj confidential_metadata) []) = [info]
       \<and> js_get info ''client_id_issued_at'' = JNum t
       \<and> js_get info ''client_secret_expires_at'' = JNum 0)"
  using register_secret_expiry [OF stub_parse_confidential, of memory_registerClient 3600 draw1 "[]"]
        register_secret_expiry [OF stub_parse_confidential, of memory_registerClient 0 draw1 "[]"]
  by (simp add: stub_parse_confidential)



text \<open>
  C3. For the method \<^verbatim>\<open>"none"\<close> the record should have no \<^verbatim>\<open>client_secret\<close> and a
  \<^verbatim>\<open>client_secret_expires_at\<close> that is absent or \<open>0\<close>. The code does the first and
  misses the second: lines 44 to 46 issue no secret for \<^verbatim>\<open>"none"\<close>, but line 54 does
  not look at the method, although the lifetime is documented (line 14) as that of issued
  client secrets. Evaluated on the scenario's public client, with the default lifetime of
  30 days and the clock at 1730000000123 ms: the record handed to the store has no
  \<^verbatim>\<open>client_secret\<close> and \<^verbatim>\<open>client_secret_expires_at = 1732592000\<close>, which is neither
  absent nor \<open>0\<close>.
\<close>

theorem public_client_default_expiry:
  "OAuthClientMetadataSchema_parse stub_ext (JObj public_metadata) = Inr public_metadata
   \<and> js_get public_metadata ''token_endpoint_auth_method'' = JStr ''none''
   \<and> length (storeCalls (register stub_ext memory_registerClient
                DEFAULT_CLIENT_SECRET_EXPIRY_SECONDS draw1 (JObj public_metadata) [])) = 1
   \<and> js_get (hd (storeCalls (register stub_ext memory_registerClient
                DEFAULT_CLIENT_SECRET_EXPIRY_SECONDS draw1 (JObj public_metadata) [])))
         ''client_secret'' = JUndefined
   \<and> js_get (hd (storeCalls (register stub_ext memory_registerClient
                DEFAULT_CLIENT_SECRET_EXPIRY_SECONDS draw1 (JObj public_metadata) [])))
         ''client_secret_expires_at'' = JNum 1732592000
   \<and> js_get (hd (storeCalls (register stub_ext memory_registerClient
                DEFAULT_CLIENT_SECRET_EXPIRY_SECONDS draw1 (JObj public_metadata) [])))
         ''client_secret_expires_at'' \<noteq> JNum 0
   \<and> js_get (hd (storeCalls (register stub_ext memory_registerClient
                DEFAULT_CLIENT_SECRET_EXPIRY_SECONDS draw1 (JObj public_metadata) [])))
         ''client_secret_expires_at'' \<noteq> JUndefined"
  by (simp add: register_valid [OF stub_parse_public] stub_parse_public public_method
        clientInfo_expires_at clientInfo_secret DEFAULT_CLIENT_SECRET_EXPIRY_SECONDS_def draw1_def)

text \<open>
  C4. When the validation of the raw input fails, \<^verbatim>\<open>register\<close> returns the error
  object with \<^verbatim>\<open>error = "invalid_client_metadata"\<close> and with \<^verbatim>\<open>error_description\<close> the
  string of the validator's failure, and \<^verbatim>\<open>registerClient\<close> of the store is not called:
  the run has no store call and leaves the store as it was.
\<close>

theorem register_invalid_metadata:
  assumes "OAuthClientMetadataSchema_parse ext requestBody = Inl failure"
  shows "outcome (register ext rc L d requestBody s) =
           Inr [(''error'', JStr ''invalid_client_metadata''),
                (''error_description'', JStr (String_of ext failure))]
         \<and> storeCalls (register ext rc L d requestBody s) = []
         \<and> storeState (register ext rc L d requestBody s) = s"
  using assms by (simp add: register_def)

theorem register_invalid_metadata_witness:
  "OAuthClientMetadataSchema_parse stub_ext (JObj incomplete_metadata)
     = Inl ''redirect_uris: Required''
   \<and> outcome (register stub_ext memory_registerClient 3600 draw1 (JObj incomplete_metadata) []) =
           Inr [(''error'', JStr ''invalid_client_metadata''),
                (''error_description'', JStr ''Error: redirect_uris: Required'')]
   \<and> storeCalls (register stub_ext memory_registerClient 3600 draw1
                    (JObj incomplete_metadata) []) = []
   \<and> storeState (register stub_ext memory_registerClient 3600 draw1
                    (JObj incomplete_metadata) []) = []"
  using register_invalid_metadata [OF stub_parse_incomplete, of memory_registerClient 3600 draw1 "[]"]
  by (simp add: stub_parse_incomplete stub_String_of)

text \<open>
  C5. Constructing the handler with a store that has no \<^verbatim>\<open>registerClient\<close> throws at
  once, with the message of line 25 and without a handler that could take a request; the
  construction returns a handler exactly when the store supplies \<^verbatim>\<open>registerClient\<close>.
\<close>

theorem construction_needs_registerClient:
  "(clientRegistrationHandler ext opts =
      Inl ''Client registration store does not support registering clients'')
     = (registerClient (clientsStore opts) = None)
   \<and> (\<exists>handler. clientRegistrationHandler ext opts = Inr handler)
     = (\<exists>rc. registerClient (clientsStore opts) = Some rc)"
  by (cases "registerClient (clientsStore opts)") (simp_all add: clientRegistrationHandler_def)

theorem construction_needs_registerClient_witness:
  "clientRegistrationHandler stub_ext
      \<lparr>clientsStore =
         \<lparr>registerClient = (None :: (string, jsobject list) registerClient_fn option)\<rparr>,
       clientSecretExpirySeconds = None\<rparr>
     = Inl ''Client registration store does not support registering clients''
   \<and> (\<exists>handler. clientRegistrationHandler stub_ext
      \<lparr>clientsStore = \<lparr>registerClient = Some memory_registerClient\<rparr>,
       clientSecretExpirySeconds = None\<rparr>
     = Inr handler)"
  using construction_needs_registerClient [of stub_ext
      "\<lparr>clientsStore =
          \<lparr>registerClient = (None :: (string, jsobject list) registerClient_fn option)\<rparr>,
        clientSecretExpirySeconds = None\<rparr>"]
    construction_needs_registerClient [of stub_ext
      "\<lparr>clientsStore = \<lparr>registerClient = Some memory_registerClient\<rparr>,
        clientSecretExpirySeconds = None\<rparr>"]
  by simp

text \<open>
  C6. When the metadata validates and the store's \<^verbatim>\<open>registerClient\<close> fails, the failure
  is no registration error: the promise of \<^verbatim>\<open>register\<close> is rejected with what the store
  threw, and the handler answers with status 500 and the text
  \<^verbatim>\<open>Internal Server Error\<close>, no JSON body, and writes the failure to the console.
\<close>

theorem store_failure_internal_error:
  assumes "OAuthClientMetadataSchema_parse ext requestBody = Inr clientMetadata"
    and "rc (clientInfo L d clientMetadata) s = (Inl failure, s')"
  shows "outcome (register ext rc L d requestBody s) = Inl failure
         \<and> post ext rc L d requestBody s =
             (\<lparr>status = 500, body = Text ''Internal Server Error'',
               console_error = [(''Uncaught error in client registration handler:'', failure)]\<rparr>,
              s')"
  using assms by (simp add: post_def register_valid respond_def Let_def)

theorem store_failure_internal_error_witness:
  "OAuthClientMetadataSchema_parse stub_ext (JObj confidential_metadata) = Inr confidential_metadata
   \<and> failing_registerClient (clientInfo 3600 draw1 confidential_metadata) []
       = (Inl ''connection lost'', [])
   \<and> outcome (register stub_ext failing_registerClient 3600 draw1
                 (JObj confidential_metadata) []) = Inl ''connection lost''
   \<and> post stub_ext failing_registerClient 3600 draw1 (JObj confidential_metadata) [] =
       (\<lparr>status = 500, body = Text ''Internal Server Error'',
         console_error =
           [(''Uncaught error in client registration handler:'', ''connection lost'')]\<rparr>,
        [])"
proof -
  have f: "failing_registerClient (clientInfo 3600 draw1 confidential_metadata) []
             = (Inl ''connection lost'', [])"
    by (simp add: failing_registerClient_def)
  show ?thesis
    using store_failure_internal_error
            [where rc = failing_registerClient, OF stub_parse_confidential f]
    by (simp add: stub_parse_confidential f)
qed

text \<open>
  C7. Two calls of \<^verbatim>\<open>register\<close> that pass validation, with the same metadata or not,
  build records with different \<^verbatim>\<open>client_id\<close>s, provided the two draws of
  \<^verbatim>\<open>crypto.randomUUID()\<close> differ.
\<close>

theorem distinct_draws_distinct_client_ids:
  assumes "OAuthClientMetadataSchema_parse ext requestBody1 = Inr clientMetadata1"
    and "OAuthClientMetadataSchema_parse ext requestBody2 = Inr clientMetadata2"
    and "randomUUID d1 \<noteq> randomUUID d2"
  shows "\<exists>info1 info2.
           storeCalls (register ext rc L d1 requestBody1 s1) = [info1]
         \<and> storeCalls (register ext rc L d2 requestBody2 s2) = [info2]
         \<and> js_get info1 ''client_id'' \<noteq> js_get info2 ''client_id''"
  using assms by (simp add: register_valid clientInfo_client_id)

theorem distinct_draws_distinct_client_ids_witness:
  "OAuthClientMetadataSchema_parse stub_ext (JObj confidential_metadata) = Inr confidential_metadata
   \<and> randomUUID draw1 \<noteq> randomUUID draw2
   \<and> (\<exists>info1 info2.
         storeCalls (register stub_ext memory_registerClient 3600 draw1
                       (JObj confidential_metadata) []) = [info1]
       \<and> storeCalls (register stub_ext memory_registerClient 3600 draw2
                       (JObj confidential_metadata)
                       (storeState (register stub_ext memory_registerClient 3600 draw1
                                      (JObj confidential_metadata) []))) = [info2]
       \<and> js_get info1 ''client_id'' \<noteq> js_get info2 ''client_id'')"
proof -
  have u: "randomUUID draw1 \<noteq> randomUUID draw2"
    by (simp add: draw1_def draw2_def)
  show ?thesis
    using distinct_draws_distinct_client_ids
            [OF stub_parse_confidential stub_parse_confidential u,
             of memory_registerClient 3600 "[]"
                "storeState (register stub_ext memory_registerClient 3600 draw1
                               (JObj confidential_metadata) [])"]
    by (simp add: stub_parse_confidential u)
qed



text \<open>
  C9. A negative configured \<^verbatim>\<open>clientSecretExpirySeconds\<close> behaves as the lifetime zero:
  the run of \<^verbatim>\<open>register\<close> is the same, so is the handler the constructor returns, and for
  metadata that validates the record is built and handed to the store with
  \<^verbatim>\<open>client_secret_expires_at = 0\<close>.
\<close>

theorem negative_lifetime_as_zero:
  assumes "L < 0"
  shows "register ext rc L d requestBody s = register ext rc 0 d requestBody s
         \<and> clientRegistrationHandler ext (opts\<lparr>clientSecretExpirySeconds := Some L\<rparr>)
             = clientRegistrationHandler ext (opts\<lparr>clientSecretExpirySeconds := Some 0\<rparr>)
         \<and> (OAuthClientMetadataSchema_parse ext requestBody = Inr clientMetadata \<longrightarrow>
              (\<exists>info. storeCalls (register ext rc L d requestBody s) = [info]
                 \<and> js_get info ''client_secret_expires_at'' = JNum 0))"
  using assms
  by (simp add: register_nonpositive [of L] clientRegistrationHandler_def post_nonpositive [of L]
        register_valid clientInfo_expires_at split: option.splits)

theorem negative_lifetime_as_zero_witness:
  "(-5::int) < 0
   \<and> register stub_ext memory_registerClient (-5) draw1 (JObj confidential_metadata) []
       = register stub_ext memory_registerClient 0 draw1 (JObj confidential_metadata) []
   \<and> clientRegistrationHandler stub_ext
         \<lparr>clientsStore = \<lparr>registerClient = Some memory_registerClient\<rparr>,
          clientSecretExpirySeconds = Some (-5)\<rparr>
       = clientRegistrationHandler stub_ext
         \<lparr>clientsStore = \<lparr>registerClient = Some memory_registerClient\<rparr>,
          clientSecretExpirySeconds = Some 0\<rparr>
   \<and> OAuthClientMetadataSchema_parse stub_ext (JObj confidential_metadata) = Inr confidential_metadata
   \<and> (\<exists>info.
         storeCalls (register stub_ext memory_registerClient (-5) draw1
                       (JObj confidential_metadata) []) = [info]
       \<and> js_get info ''client_secret_expires_at'' = JNum 0)"
proof -
  have neg: "(-5::int) < 0" by simp
  show ?thesis
    using negative_lifetime_as_zero [OF neg, of stub_ext memory_registerClient draw1
        "JObj confidential_metadata" "[]"
        "\<lparr>clientsStore = \<lparr>registerClient = Some memory_registerClient\<rparr>,
          clientSecretExpirySeconds = None\<rparr>" confidential_metadata]
      stub_parse_confidential neg
    unfolding ClientRegistrationHandlerOptions.simps by blast
qed

text \<open>
  C10. The handler tells a failure from a success by the key \<^verbatim>\<open>"error"\<close> of what
  \<^verbatim>\<open>register\<close> returned, and by nothing else: status 400 when the result has the key,
  status 201 when it has not, the result as the JSON body in both cases. So when the store
  takes a valid registration and returns a record with an \<^verbatim>\<open>"error"\<close> property, the
  store is in its new state and the caller gets status 400.
\<close>

theorem handler_classifies_by_error_key:
  "(outcome (register ext rc L d requestBody s) = Inr result \<longrightarrow>
      fst (post ext rc L d requestBody s) =
        \<lparr>status = (if js_in ''error'' result then 400 else 201),
         body = Json result, console_error = []\<rparr>)
   \<and> (OAuthClientMetadataSchema_parse ext requestBody = Inr clientMetadata
        \<and> rc (clientInfo L d clientMetadata) s = (Inr stored, s')
        \<and> js_in ''error'' stored \<longrightarrow>
      post ext rc L d requestBody s =
        (\<lparr>status = 400, body = Json stored, console_error = []\<rparr>, s'))"
  by (auto simp add: post_def respond_def Let_def register_valid)

theorem handler_classifies_by_error_key_witness:
  "OAuthClientMetadataSchema_parse stub_ext (JObj confidential_metadata) = Inr confidential_metadata
   \<and> tagging_registerClient (clientInfo 3600 draw1 confidential_metadata) []
       = (Inr (js_define (clientInfo 3600 draw1 confidential_metadata) [(''error'', JNull)]),
          [clientInfo 3600 draw1 confidential_metadata])
   \<and> js_in ''error'' (js_define (clientInfo 3600 draw1 confidential_metadata) [(''error'', JNull)])
   \<and> post stub_ext tagging_registerClient 3600 draw1 (JObj confidential_metadata) [] =
        (\<lparr>status = 400,
          body = Json (js_define (clientInfo 3600 draw1 confidential_metadata)
                         [(''error'', JNull)]),
          console_error = []\<rparr>,
         [clientInfo 3600 draw1 confidential_metadata])
   \<and> outcome (register stub_ext memory_registerClient 3600 draw1 (JObj confidential_metadata) [])
       = Inr (clientInfo 3600 draw1 confidential_metadata)
   \<and> \<not> js_in ''error'' (clientInfo 3600 draw1 confidential_metadata)
   \<and> fst (post stub_ext memory_registerClient 3600 draw1 (JObj confidential_metadata) []) =
        \<lparr>status = 201, body = Json (clientInfo 3600 draw1 confidential_metadata),
         console_error = []\<rparr>"
proof -
  have t: "tagging_registerClient (clientInfo 3600 draw1 confidential_metadata) []
       = (Inr (js_define (clientInfo 3600 draw1 confidential_metadata) [(''error'', JNull)]),
          [clientInfo 3600 draw1 confidential_metadata])"
    by (simp add: tagging_registerClient_def)
  have o: "outcome (register stub_ext memory_registerClient 3600 draw1
                      (JObj confidential_metadata) [])
       = Inr (clientInfo 3600 draw1 confidential_metadata)"
    by (simp add: register_valid [OF stub_parse_confidential] memory_registerClient_def)
  have e: "\<not> js_in ''error'' (clientInfo 3600 draw1 confidential_metadata)"
    by (simp add: js_in_def map_of_clientInfo confidential_metadata_def)
  show ?thesis
    using handler_classifies_by_error_key [of stub_ext tagging_registerClient 3600 draw1
        "JObj confidential_metadata" "[]" _ confidential_metadata
        "js_define (clientInfo 3600 draw1 confidential_metadata) [(''error'', JNull)]"
        "[clientInfo 3600 draw1 confidential_metadata]"]
      handler_classifies_by_error_key [of stub_ext memory_registerClient 3600 draw1
        "JObj confidential_metadata" "[]" "clientInfo 3600 draw1 confidential_metadata"]
    by (simp add: stub_parse_confidential t o e tagged_has_error)
qed
end
